theory Spec2Isabelle
  imports Complex_Main "HOL-Library.Sublist"
begin

section \<open>JavaScript values and built-ins used by app.js\<close>

text \<open>
  Strings are \<open>string\<close> (lists of bytes); a field that may be absent (\<open>undefined\<close>) is an
  \<open>option\<close>. The operator \<open>x || d\<close> yields \<open>d\<close> when \<open>x\<close> is falsy: \<open>undefined\<close>, the empty
  string, or the number zero.
\<close>

definition or_str :: "string option \<Rightarrow> string \<Rightarrow> string" where
  "or_str x d = (case x of None \<Rightarrow> d | Some s \<Rightarrow> if s = [] then d else s)"

definition or_nat :: "nat option \<Rightarrow> nat \<Rightarrow> nat" where
  "or_nat x d = (case x of None \<Rightarrow> d | Some n \<Rightarrow> if n = 0 then d else n)"

definition truthy_bool :: "bool option \<Rightarrow> bool" where
  "truthy_bool x = (x = Some True)"

definition truthy_str :: "string option \<Rightarrow> bool" where
  "truthy_str x = (case x of None \<Rightarrow> False | Some s \<Rightarrow> s \<noteq> [])"

definition truthy_nat :: "nat option \<Rightarrow> bool" where
  "truthy_nat x = (case x of None \<Rightarrow> False | Some n \<Rightarrow> n \<noteq> 0)"

text \<open>\<open>String.prototype.split(sep)\<close> for a one-character separator.\<close>

fun js_split :: "char \<Rightarrow> string \<Rightarrow> string list" where
  "js_split c [] = [[]]"
| "js_split c (x # xs) =
     (if x = c then [] # js_split c xs
      else (case js_split c xs of [] \<Rightarrow> [[x]] | w # ws \<Rightarrow> (x # w) # ws))"

text \<open>Array indexing \<open>xs[i]\<close>: \<open>undefined\<close> out of range.\<close>

definition js_index :: "'a list \<Rightarrow> nat \<Rightarrow> 'a option" where
  "js_index xs i = (if i < length xs then Some (xs ! i) else None)"

text \<open>\<open>String.prototype.trim\<close> on the ASCII white space and line terminators.\<close>

definition is_space :: "char \<Rightarrow> bool" where
  "is_space c = (c \<in> set [CHR '' '', CHR 0x09, CHR 0x0A, CHR 0x0B, CHR 0x0C, CHR 0x0D])"

definition trim :: "string \<Rightarrow> string" where
  "trim s = rev (dropWhile is_space (rev (dropWhile is_space s)))"




text \<open>\<open>Number.prototype.toString\<close> for integers, and \<open>String.prototype.padStart\<close>.\<close>

definition digit_char :: "nat \<Rightarrow> char" where
  "digit_char d = ''0123456789'' ! (d mod 10)"

fun nat_digits :: "nat \<Rightarrow> string" where
  "nat_digits n = (if n < 10 then [digit_char n] else nat_digits (n div 10) @ [digit_char (n mod 10)])"

declare nat_digits.simps [simp del]

definition toString :: "int \<Rightarrow> string" where
  "toString i = (if i < 0 then CHR ''-'' # nat_digits (nat (- i)) else nat_digits (nat i))"



section \<open>JSON values\<close>

text \<open>
  A JSON value as \<open>JSON.parse\<close> yields it and \<open>JSON.stringify\<close> prints it. A number
  is carried as its decimal text, which is all the dashboard reads of it.
\<close>

datatype json =
  JNull
| JBool bool
| JNum string
| JStr string
| JArr "json list"
| JObj "(string \<times> json) list"

definition hex_digit :: "nat \<Rightarrow> char" where
  "hex_digit d = ''0123456789abcdef'' ! (d mod 16)"

text \<open>
  The escapes of \<open>JSON.stringify\<close>: the quote (0x22), the backslash (0x5C), the short
  forms of the control characters, and \<open>\u00XX\<close> for the other ones below 0x20.
\<close>

definition escape_char :: "char \<Rightarrow> string" where
  "escape_char c =
     (if c = CHR 0x22 then [CHR 0x5C, CHR 0x22]
      else if c = CHR 0x5C then [CHR 0x5C, CHR 0x5C]
      else if c = CHR 0x08 then [CHR 0x5C, CHR ''b'']
      else if c = CHR 0x0C then [CHR 0x5C, CHR ''f'']
      else if c = CHR 0x0A then [CHR 0x5C, CHR ''n'']
      else if c = CHR 0x0D then [CHR 0x5C, CHR ''r'']
      else if c = CHR 0x09 then [CHR 0x5C, CHR ''t'']
      else if (of_char c :: nat) < 32
        then [CHR 0x5C, CHR ''u'', CHR ''0'', CHR ''0'',
              hex_digit (of_char c div 16), hex_digit (of_char c mod 16)]
      else [c])"

definition quote :: "string \<Rightarrow> string" where
  "quote s = CHR 0x22 # concat (map escape_char s) @ [CHR 0x22]"

fun join :: "string \<Rightarrow> string list \<Rightarrow> string" where
  "join sep [] = []"
| "join sep [x] = x"
| "join sep (x # y # ys) = x @ sep @ join sep (y # ys)"

fun stringify :: "json \<Rightarrow> string" where
  "stringify JNull = ''null''"
| "stringify (JBool b) = (if b then ''true'' else ''false'')"
| "stringify (JNum t) = t"
| "stringify (JStr s) = quote s"
| "stringify (JArr xs) = ''['' @ join '','' (map stringify xs) @ '']''"
| "stringify (JObj kvs) =
     ''{'' @ join '','' (map (\<lambda>kv. quote (fst kv) @ '':'' @ stringify (snd kv)) kvs) @ ''}''"

text \<open>
  \<open>JSON.parse\<close>, with \<open>None\<close> for the \<open>SyntaxError\<close> it throws. The grammar is the one
  of the standard: white space is the space, tab, line feed and carriage return; a
  number has no leading zeros; a string has no raw control character. The recursion
  over arrays and objects runs on a counter that starts above the number of calls the
  text can cause (every call but the first consumes a character).
\<close>

definition is_json_ws :: "char \<Rightarrow> bool" where
  "is_json_ws c = (c \<in> set [CHR '' '', CHR 0x09, CHR 0x0A, CHR 0x0D])"

definition skip_ws :: "string \<Rightarrow> string" where
  "skip_ws s = dropWhile is_json_ws s"

definition is_digit :: "char \<Rightarrow> bool" where
  "is_digit c = (c \<in> set ''0123456789'')"

definition hex_val :: "char \<Rightarrow> nat option" where
  "hex_val c =
     map_of (zip ''0123456789abcdefABCDEF''
       [0, 1, 2, 3, 4, 5, 6, 7, 8, 9, 10, 11, 12, 13, 14, 15, 10, 11, 12, 13, 14, 15]) c"

definition opt_frac :: "string \<Rightarrow> (string \<times> string) option" where
  "opt_frac s =
     (case s of
        [] \<Rightarrow> Some ([], [])
      | c # cs \<Rightarrow>
          if c = CHR ''.''
          then (if takeWhile is_digit cs = [] then None
                else Some (c # takeWhile is_digit cs, dropWhile is_digit cs))
          else Some ([], s))"

definition opt_exp :: "string \<Rightarrow> (string \<times> string) option" where
  "opt_exp s =
     (case s of
        [] \<Rightarrow> Some ([], [])
      | c # cs \<Rightarrow>
          if c = CHR ''e'' \<or> c = CHR ''E''
          then (let sg = (case cs of [] \<Rightarrow> [] | d # ds \<Rightarrow>
                            if d = CHR ''+'' \<or> d = CHR ''-'' then [d] else []);
                    r = drop (length sg) cs
                in if takeWhile is_digit r = [] then None
                   else Some (c # sg @ takeWhile is_digit r, dropWhile is_digit r))
          else Some ([], s))"

definition parse_number :: "string \<Rightarrow> (string \<times> string) option" where
  "parse_number s =
     (let sg = (case s of [] \<Rightarrow> [] | c # cs \<Rightarrow> if c = CHR ''-'' then [c] else []);
          s1 = drop (length sg) s;
          ip = takeWhile is_digit s1
      in if ip = [] \<or> (prefix ''0'' ip \<and> 1 < length ip) then None
         else (case opt_frac (dropWhile is_digit s1) of
                 None \<Rightarrow> None
               | Some (f, s2) \<Rightarrow>
                   (case opt_exp s2 of
                      None \<Rightarrow> None
                    | Some (e, s3) \<Rightarrow> Some (sg @ ip @ f @ e, s3))))"

text \<open>A \<open>\uXXXX\<close> escape yields a code unit, kept as its UTF-8 bytes.\<close>

definition utf8 :: "nat \<Rightarrow> string" where
  "utf8 n =
     (if n < 128 then [char_of n]
      else if n < 2048 then [char_of (192 + n div 64), char_of (128 + n mod 64)]
      else [char_of (224 + n div 4096), char_of (128 + n div 64 mod 64),
            char_of (128 + n mod 64)])"

definition simple_escape :: "char \<Rightarrow> char option" where
  "simple_escape e =
     map_of [(CHR 0x22, CHR 0x22), (CHR 0x5C, CHR 0x5C), (CHR ''/'', CHR ''/''),
             (CHR ''b'', CHR 0x08), (CHR ''f'', CHR 0x0C), (CHR ''n'', CHR 0x0A),
             (CHR ''r'', CHR 0x0D), (CHR ''t'', CHR 0x09)] e"

definition unicode_escape :: "char \<Rightarrow> char \<Rightarrow> char \<Rightarrow> char \<Rightarrow> string option" where
  "unicode_escape a b c d =
     (case (hex_val a, hex_val b, hex_val c, hex_val d) of
        (Some x, Some y, Some z, Some w) \<Rightarrow> Some (utf8 (((x * 16 + y) * 16 + z) * 16 + w))
      | _ \<Rightarrow> None)"

text \<open>The characters of a string literal, after its opening quote.\<close>

fun parse_chars :: "string \<Rightarrow> (string \<times> string) option" where
  "parse_chars [] = None"
| "parse_chars (c # cs) =
     (if c = CHR 0x22 then Some ([], cs)
      else if c = CHR 0x5C then
        (case cs of
           [] \<Rightarrow> None
         | e # es \<Rightarrow>
             if e = CHR ''u'' then
               (case es of
                  h1 # h2 # h3 # h4 # r \<Rightarrow>
                    (case unicode_escape h1 h2 h3 h4 of
                       None \<Rightarrow> None
                     | Some bs \<Rightarrow> map_option (\<lambda>(t, r'). (bs @ t, r')) (parse_chars r))
                | _ \<Rightarrow> None)
             else
               (case simple_escape e of
                  None \<Rightarrow> None
                | Some ch \<Rightarrow> map_option (\<lambda>(t, r'). (ch # t, r')) (parse_chars es)))
      else if (of_char c :: nat) < 32 then None
      else map_option (\<lambda>(t, r'). (c # t, r')) (parse_chars cs))"

fun parse_value :: "nat \<Rightarrow> string \<Rightarrow> (json \<times> string) option"
  and parse_elements :: "nat \<Rightarrow> string \<Rightarrow> (json list \<times> string) option"
  and parse_members :: "nat \<Rightarrow> string \<Rightarrow> ((string \<times> json) list \<times> string) option"
where
  "parse_value 0 s = None"
| "parse_value (Suc n) s =
     (case skip_ws s of
        [] \<Rightarrow> None
      | c # cs \<Rightarrow>
          if c = CHR ''{'' then
            (if prefix ''}'' (skip_ws cs) then Some (JObj [], drop 1 (skip_ws cs))
             else map_option (\<lambda>(ms, r). (JObj ms, r)) (parse_members n cs))
          else if c = CHR ''['' then
            (if prefix '']'' (skip_ws cs) then Some (JArr [], drop 1 (skip_ws cs))
             else map_option (\<lambda>(vs, r). (JArr vs, r)) (parse_elements n cs))
          else if c = CHR 0x22 then map_option (\<lambda>(t, r). (JStr t, r)) (parse_chars cs)
          else if prefix ''true'' (c # cs) then Some (JBool True, drop 4 (c # cs))
          else if prefix ''false'' (c # cs) then Some (JBool False, drop 5 (c # cs))
          else if prefix ''null'' (c # cs) then Some (JNull, drop 4 (c # cs))
          else map_option (\<lambda>(t, r). (JNum t, r)) (parse_number (c # cs)))"
| "parse_elements 0 s = None"
| "parse_elements (Suc n) s =
     (case parse_value n s of
        None \<Rightarrow> None
      | Some (v, r) \<Rightarrow>
          (case skip_ws r of
             [] \<Rightarrow> None
           | c # cs \<Rightarrow>
               if c = CHR '','' then map_option (\<lambda>(vs, r'). (v # vs, r')) (parse_elements n cs)
               else if c = CHR '']'' then Some ([v], cs)
               else None))"
| "parse_members 0 s = None"
| "parse_members (Suc n) s =
     (case skip_ws s of
        [] \<Rightarrow> None
      | c # cs \<Rightarrow>
          if c \<noteq> CHR 0x22 then None
          else
            (case parse_chars cs of
               None \<Rightarrow> None
             | Some (k, r) \<Rightarrow>
                 (case skip_ws r of
                    [] \<Rightarrow> None
                  | d # ds \<Rightarrow>
                      if d \<noteq> CHR '':'' then None
                      else
                        (case parse_value n ds of
                           None \<Rightarrow> None
                         | Some (v, r') \<Rightarrow>
                             (case skip_ws r' of
                                [] \<Rightarrow> None
                              | e # es \<Rightarrow>
                                  if e = CHR '','' then
                                    map_option (\<lambda>(ms, r''). ((k, v) # ms, r''))
                                      (parse_members n es)
                                  else if e = CHR ''}'' then Some ([(k, v)], es)
                                  else None)))))"

definition JSON_parse :: "string \<Rightarrow> json option" where
  "JSON_parse s =
     (case parse_value (2 * length s + 2) s of
        None \<Rightarrow> None
      | Some (v, r) \<Rightarrow> if skip_ws r = [] then Some v else None)"

text \<open>
  \<open>parseInt(s)\<close> without a radix: leading white space, a sign, an optional \<open>0x\<close>, then
  the longest run of digits; \<open>None\<close> is \<open>NaN\<close>.
\<close>

definition parseInt :: "string \<Rightarrow> int option" where
  "parseInt s =
     (let s1 = dropWhile is_space s;
          sg = (case s1 of [] \<Rightarrow> [] | c # cs \<Rightarrow>
                  if c = CHR ''-'' \<or> c = CHR ''+'' then [c] else []);
          s2 = drop (length sg) s1;
          hex = (prefix ''0x'' s2 \<or> prefix ''0X'' s2);
          base = (if hex then 16 else 10 :: nat);
          ds = takeWhile (\<lambda>c. case hex_val c of None \<Rightarrow> False | Some v \<Rightarrow> v < base)
                 (if hex then drop 2 s2 else s2);
          n = foldl (\<lambda>a c. a * base + (case hex_val c of None \<Rightarrow> 0 | Some v \<Rightarrow> v)) 0 ds
      in if ds = [] then None
         else Some (if sg = ''-'' then - int n else int n))"

section \<open>Configuration, agents registry and state\<close>

record config =
  openclawUrl :: string
  n8nUrl :: string
  refreshInterval :: nat
  scheduleHour :: int

definition CONFIG :: config where
  "CONFIG = \<lparr> openclawUrl = ''/proxy/openclaw'', n8nUrl = ''/proxy/n8n'',
              refreshInterval = 30000, scheduleHour = 23 \<rparr>"

text \<open>An entry of the registry; the \<open>emoji\<close> field is decoration and is left out.\<close>

record agent =
  agent_id :: string
  agent_name :: string
  agent_model :: string
  agent_workspace :: string

definition AGENTS :: "agent list" where
  "AGENTS =
    [\<lparr> agent_id = ''main'', agent_name = ''Main Agent'',
       agent_model = ''claude-opus-4-5-thinking'',
       agent_workspace = ''/home/protik/.openclaw/workspace'' \<rparr>,
     \<lparr> agent_id = ''blog-publisher'', agent_name = ''Blog Publisher'',
       agent_model = ''claude-sonnet-4-5'',
       agent_workspace = ''/workspace/agents/blog-publisher'' \<rparr>,
     \<lparr> agent_id = ''research-scraper'', agent_name = ''Research Scraper'',
       agent_model = ''llama-3.3-70b'',
       agent_workspace = ''/workspace/agents/research-scraper'' \<rparr>,
     \<lparr> agent_id = ''inbox-checker'', agent_name = ''Inbox Checker'',
       agent_model = ''gpt-5-mini'',
       agent_workspace = ''/workspace/agents/inbox-checker'' \<rparr>]"

text \<open>A session as the gateway lists it; every field may be missing.\<close>

record session =
  key :: "string option"
  agentId :: "string option"
  updatedAt :: "nat option"
  ageMs :: "nat option"
  totalTokens :: "nat option"
  active :: "bool option"

record cron_job =
  job_id :: string
  job_name :: "string option"
  enabled :: "bool option"
  nextRunAtMs :: "nat option"

record activity_item =
  item_type :: string
  agent :: string
  content :: string
  timestamp :: nat

record state =
  sessions :: "session list"
  cronJobs :: "cron_job list"
  activity :: "activity_item list"
  gatewayOnline :: bool
  n8nOnline :: bool

definition initial_state :: state where
  "initial_state = \<lparr> sessions = [], cronJobs = [], activity = [],
                       gatewayOnline = False, n8nOnline = False \<rparr>"

section \<open>API helpers\<close>

text \<open>
  What the network answers to one request: \<open>fetch\<close> or \<open>response.json()\<close> throws
  (\<open>Rejected\<close>), or the body parses to a value, \<open>None\<close> being the JSON \<open>null\<close>. The HTTP
  status is not part of it: no code path reads \<open>response.ok\<close> or \<open>response.status\<close>.
\<close>

datatype 'a fetched = Rejected | Json "'a option"

record request =
  req_url :: string
  req_method :: string
  req_body :: "string option"

text \<open>
  \<open>fetchOpenClaw(endpoint, options)\<close>: the request goes to the gateway prefix followed
  by the endpoint; a thrown error is caught and becomes \<open>null\<close>.
\<close>

definition fetchOpenClaw ::
  "config \<Rightarrow> string \<Rightarrow> string \<Rightarrow> string option \<Rightarrow> 'a fetched \<Rightarrow> request \<times> 'a option" where
  "fetchOpenClaw cfg endpoint meth body net =
     (\<lparr> req_url = openclawUrl cfg @ endpoint, req_method = meth, req_body = body \<rparr>,
      case net of Rejected \<Rightarrow> None | Json d \<Rightarrow> d)"

record sessions_response =
  resp_sessions :: "session list option"

record cron_response =
  resp_jobs :: "cron_job list option"

record health_response =
  health_ok :: "bool option"
  health_error :: "string option"

text \<open>The answer to a mutating call: \<open>{ok, error}\<close>, either of which may be missing.\<close>

record api_result =
  res_ok :: "bool option"
  res_error :: "string option"

section \<open>Data loaders\<close>

definition checkGatewayStatus :: "health_response fetched \<Rightarrow> state \<Rightarrow> state" where
  "checkGatewayStatus net st =
     st \<lparr> gatewayOnline :=
       (case net of
          Rejected \<Rightarrow> False
        | Json None \<Rightarrow> False
        | Json (Some d) \<Rightarrow> health_ok d = Some True \<or> \<not> truthy_str (health_error d)) \<rparr>"

definition loadSessions :: "config \<Rightarrow> sessions_response fetched \<Rightarrow> state \<Rightarrow> state" where
  "loadSessions cfg net st =
     (case snd (fetchOpenClaw cfg ''/sessions'' ''GET'' None net) of
        None \<Rightarrow> st
      | Some d \<Rightarrow>
          (case resp_sessions d of
             None \<Rightarrow> st
           | Some ss \<Rightarrow> st \<lparr> sessions := ss \<rparr>))"

definition loadCronJobs :: "config \<Rightarrow> cron_response fetched \<Rightarrow> state \<Rightarrow> state" where
  "loadCronJobs cfg net st =
     (case snd (fetchOpenClaw cfg ''/cron'' ''GET'' None net) of
        None \<Rightarrow> st
      | Some d \<Rightarrow>
          (case resp_jobs d of
             None \<Rightarrow> st
           | Some js \<Rightarrow> st \<lparr> cronJobs := js \<rparr>))"

text \<open>
  \<open>Array.prototype.sort(cmp)\<close>: stable; \<open>a\<close> goes before \<open>b\<close> when \<open>cmp(a, b)\<close> is
  negative, and equal elements keep their order.
\<close>

fun insert_by :: "('a \<Rightarrow> 'a \<Rightarrow> int) \<Rightarrow> 'a \<Rightarrow> 'a list \<Rightarrow> 'a list" where
  "insert_by cmp x [] = [x]"
| "insert_by cmp x (y # ys) =
     (if cmp x y \<le> 0 then x # y # ys else y # insert_by cmp x ys)"

definition js_sort :: "('a \<Rightarrow> 'a \<Rightarrow> int) \<Rightarrow> 'a list \<Rightarrow> 'a list" where
  "js_sort cmp xs = foldr (insert_by cmp) xs []"

text \<open>
  \<open>loadActivity\<close>: one item per session, newest first, at most twenty. \<open>now\<close> is the
  reading of \<open>Date.now()\<close> that stands in for a missing \<open>updatedAt\<close>; a missing key prints
  as \<open>undefined\<close> in the template.
\<close>

definition activity_of :: "nat \<Rightarrow> session \<Rightarrow> activity_item" where
  "activity_of now s =
     \<lparr> item_type = ''session'',
       agent = or_str (agentId s) ''main'',
       content = ''Session '' @ (case key s of None \<Rightarrow> ''undefined'' | Some k \<Rightarrow> k) @ '' - '' @
                 toString (int (or_nat (totalTokens s) 0)) @ '' tokens'',
       timestamp = or_nat (updatedAt s) now \<rparr>"

definition newest_first :: "activity_item \<Rightarrow> activity_item \<Rightarrow> int" where
  "newest_first a b = int (timestamp b) - int (timestamp a)"

definition loadActivity :: "config \<Rightarrow> nat \<Rightarrow> sessions_response fetched \<Rightarrow> state \<Rightarrow> state" where
  "loadActivity cfg now net st =
     (case snd (fetchOpenClaw cfg ''/sessions'' ''GET'' None net) of
        None \<Rightarrow> st
      | Some d \<Rightarrow>
          (case resp_sessions d of
             None \<Rightarrow> st
           | Some ss \<Rightarrow>
               st \<lparr> activity := take 20 (js_sort newest_first (map (activity_of now) ss)) \<rparr>))"


section \<open>Renderers\<close>

text \<open>
  \<open>updateStats\<close>: the three counters written to the overview (the elements
  \<open>stat-agents\<close>, \<open>stat-sessions\<close> and \<open>stat-cron\<close>); \<open>n || m\<close> on numbers yields \<open>m\<close>
  when \<open>n\<close> is zero.
\<close>

record stats =
  stat_agents :: nat
  stat_sessions :: nat
  stat_cron :: nat

definition updateStats :: "state \<Rightarrow> stats" where
  "updateStats st =
     \<lparr> stat_agents = length AGENTS,
       stat_sessions =
         (let n = length (filter (\<lambda>s. truthy_bool (active s)) (sessions st))
          in if n = 0 then length (sessions st) else n),
       stat_cron = length (filter (\<lambda>j. truthy_bool (enabled j)) (cronJobs st)) \<rparr>"

text \<open>
  The host's time zone, as \<open>Date\<close> reads it. A \<open>Date\<close> holds an instant: milliseconds of
  UTC. \<open>LocalTZA_utc z t\<close> is the offset of local time in force at the instant \<open>t\<close>;
  \<open>LocalTZA_local z l\<close> is the offset by which the local reading \<open>l\<close> is turned back
  into an instant (for a reading that a clock change skips or repeats, the offset
  before the change). \<open>LocalTime\<close> and \<open>UTC\<close> are the two conversions.
\<close>

record zone =
  LocalTZA_utc :: "int \<Rightarrow> int"
  LocalTZA_local :: "int \<Rightarrow> int"



text \<open>A zone that keeps one offset, and a zone whose offset changes once, at \<open>u\<close>.\<close>

definition fixed_zone :: "int \<Rightarrow> zone" where
  "fixed_zone c = \<lparr> LocalTZA_utc = (\<lambda>t. c), LocalTZA_local = (\<lambda>l. c) \<rparr>"










text \<open>
  \<open>renderAgents\<close>. The loop over the sessions fills a set of active agent ids and a
  table of last-activity times; a card per registry entry reads both. The agent of a
  session is read from its key here: \<open>session.key?.split(':')[1] || 'main'\<close>. A missing
  \<open>ageMs\<close> counts as age zero. A table entry is replaced when it is falsy or older.
\<close>

definition session_agent :: "session \<Rightarrow> string" where
  "session_agent s =
     or_str (case key s of None \<Rightarrow> None | Some k \<Rightarrow> js_index (js_split (CHR '':'') k) 1)
       ''main''"

definition recent :: "session \<Rightarrow> bool" where
  "recent s = (real (or_nat (ageMs s) 0) / 60000 < 5)"

definition js_gt :: "nat option \<Rightarrow> nat option \<Rightarrow> bool" where
  "js_gt a b = (case (a, b) of (Some x, Some y) \<Rightarrow> y < x | _ \<Rightarrow> False)"

record agents_scan =
  activeAgentIds :: "string set"
  agentLastActivity :: "string \<Rightarrow> nat option"

definition scan_session :: "session \<Rightarrow> agents_scan \<Rightarrow> agents_scan" where
  "scan_session s acc =
     (let aid = session_agent s;
          acc1 = (if recent s
                  then acc \<lparr> activeAgentIds := insert aid (activeAgentIds acc) \<rparr>
                  else acc)
      in if \<not> truthy_nat (agentLastActivity acc1 aid)
            \<or> js_gt (updatedAt s) (agentLastActivity acc1 aid)
         then acc1 \<lparr> agentLastActivity := (agentLastActivity acc1) (aid := updatedAt s) \<rparr>
         else acc1)"

definition scan_sessions :: "session list \<Rightarrow> agents_scan" where
  "scan_sessions ss =
     fold scan_session ss \<lparr> activeAgentIds = {}, agentLastActivity = (\<lambda>_. None) \<rparr>"

text \<open>The number a time reads as in a comparison: a missing one is no time at all.\<close>

definition stamp :: "nat option \<Rightarrow> nat" where
  "stamp u = (case u of None \<Rightarrow> 0 | Some n \<Rightarrow> n)"

text \<open>A card: the agent, its status, and the time shown (\<open>None\<close> prints as \<open>Never\<close>).\<close>

record agent_card =
  card_agent :: string
  isActive :: bool
  lastActivity :: "nat option"

definition renderAgents :: "state \<Rightarrow> agent_card list" where
  "renderAgents st =
     (let acc = scan_sessions (sessions st)
      in map (\<lambda>a. \<lparr> card_agent = agent_id a,
                    isActive = (agent_id a \<in> activeAgentIds acc),
                    lastActivity = (if truthy_nat (agentLastActivity acc (agent_id a))
                                    then agentLastActivity acc (agent_id a) else None) \<rparr>)
           AGENTS)"

text \<open>
  \<open>viewAgentDetails\<close> lists the sessions of one agent, and reads the agent of a
  session as \<open>s.agentId || (s.key && s.key.split(':')[1]) || 'main'\<close>.
\<close>

definition details_agent :: "session \<Rightarrow> string" where
  "details_agent s =
     or_str (if truthy_str (agentId s) then agentId s
             else if truthy_str (key s)
               then (case key s of None \<Rightarrow> None | Some k \<Rightarrow> js_index (js_split (CHR '':'') k) 1)
             else None)
       ''main''"

definition details_sessions :: "state \<Rightarrow> string \<Rightarrow> session list" where
  "details_sessions st a = filter (\<lambda>s. details_agent s = a) (sessions st)"

section \<open>Actions\<close>

datatype toast_kind = Info | Success | Error

datatype followup = HideSpawnModal | LoadSessionsAfter nat | LoadSessions

record effects =
  requests :: "request list"
  toasts :: "(toast_kind \<times> string) list"
  followups :: "followup list"

definition getAgentName :: "string \<Rightarrow> string" where
  "getAgentName a =
     (case find (\<lambda>g. agent_id g = a) AGENTS of
        None \<Rightarrow> a
      | Some g \<Rightarrow> if agent_name g = [] then a else agent_name g)"

definition result_ok :: "api_result option \<Rightarrow> bool" where
  "result_ok r = (case r of None \<Rightarrow> False | Some d \<Rightarrow> truthy_bool (res_ok d))"

definition result_error :: "api_result option \<Rightarrow> string option" where
  "result_error r = (case r of None \<Rightarrow> None | Some d \<Rightarrow> res_error d)"

text \<open>The check mark that ends the success message of \<open>spawnAgent\<close> (U+2713 in UTF-8).\<close>

definition check_mark :: string where
  "check_mark = [CHR 0xE2, CHR 0x9C, CHR 0x93]"

text \<open>
  \<open>spawnAgent\<close>, with the agent id \<open>aid\<close> and the task text read from the form. The first branch
  needs a truthy \<open>ok\<close>, the second a truthy \<open>error\<close>; there is no third.
\<close>

definition spawnAgent :: "config \<Rightarrow> string \<Rightarrow> string \<Rightarrow> api_result fetched \<Rightarrow> effects" where
  "spawnAgent cfg aid task net =
     (if trim task = [] then
        \<lparr> requests = [], toasts = [(Error, ''Please enter a task'')], followups = [] \<rparr>
      else
        (let spawning = (Info, ''Spawning '' @ getAgentName aid @ ''...'');
             (req, result) = fetchOpenClaw cfg ''/sessions/spawn'' ''POST''
               (Some (stringify (JObj [(''agentId'', JStr aid), (''task'', JStr task)]))) net
         in if result_ok result then
              \<lparr> requests = [req],
                toasts = [spawning, (Success, ''Spawned '' @ getAgentName aid @ '' '' @ check_mark)],
                followups = [HideSpawnModal, LoadSessionsAfter 2000] \<rparr>
            else if result \<noteq> None \<and> truthy_str (result_error result) then
              \<lparr> requests = [req],
                toasts = [spawning,
                  (Error, ''Failed to spawn: '' @ or_str (result_error result) ''Unknown error'')],
                followups = [] \<rparr>
            else \<lparr> requests = [req], toasts = [spawning], followups = [] \<rparr>))"

definition quickSpawn_tasks :: "(string \<times> string) list" where
  "quickSpawn_tasks =
     [(''blog-publisher'',
       ''Check /workspace/agent/drafts/ for ready posts. Publish one if available.''),
      (''research-scraper'',
       ''Pick a topic from INTERESTS.md and do a quick research dive. Save notes.''),
      (''inbox-checker'',
       ''Check for new emails and notifications. Report anything important.'')]"

definition quickSpawn :: "config \<Rightarrow> string \<Rightarrow> api_result fetched \<Rightarrow> effects" where
  "quickSpawn cfg aid net =
     (let (req, result) = fetchOpenClaw cfg ''/api/sessions/spawn'' ''POST''
            (Some (stringify (JObj [(''agentId'', JStr aid),
               (''task'', JStr (or_str (map_of quickSpawn_tasks aid)
                                  ''Execute your default task.''))]))) net
      in if result \<noteq> None \<and> \<not> truthy_str (result_error result) then
           \<lparr> requests = [req], toasts = [(Success, ''Spawned '' @ getAgentName aid)],
             followups = [LoadSessions] \<rparr>
         else
           \<lparr> requests = [req],
             toasts = [(Error, ''Failed to spawn: '' @ or_str (result_error result) ''Unknown error'')],
             followups = [] \<rparr>)"

definition triggerCron :: "config \<Rightarrow> string \<Rightarrow> api_result fetched \<Rightarrow> effects" where
  "triggerCron cfg jobId net =
     (let (req, result) = fetchOpenClaw cfg ''/api/cron/run'' ''POST''
            (Some (stringify (JObj [(''jobId'', JStr jobId)]))) net
      in if result \<noteq> None \<and> \<not> truthy_str (result_error result) then
           \<lparr> requests = [req], toasts = [(Success, ''Job triggered'')], followups = [] \<rparr>
         else
           \<lparr> requests = [req],
             toasts = [(Error, ''Failed: '' @ or_str (result_error result) ''Unknown error'')],
             followups = [] \<rparr>)"

section \<open>Settings\<close>

text \<open>
  The settings form: the value of the element with a given id, \<open>None\<close> when the page
  has no such element. \<open>get(id)\<close> is \<open>document.getElementById(id)?.value || ''\<close>.
\<close>

type_synonym form = "string \<Rightarrow> string option"

definition get :: "form \<Rightarrow> string \<Rightarrow> string" where
  "get f i = or_str (f i) []"

record settings =
  hashnode_api_key :: string
  hashnode_url :: string
  publication_id :: string
  settings_scheduleHour :: int
  notes_path :: string
  rss_feeds :: "string list"
  providers :: json

definition settings_json :: "settings \<Rightarrow> json" where
  "settings_json st =
     JObj [(''settings'', JObj
       [(''hashnode_api_key'', JStr (hashnode_api_key st)),
        (''hashnode_url'', JStr (hashnode_url st)),
        (''publication_id'', JStr (publication_id st)),
        (''scheduleHour'', JNum (toString (settings_scheduleHour st))),
        (''notes_path'', JStr (notes_path st)),
        (''rss_feeds'', JArr (map JStr (rss_feeds st))),
        (''providers'', providers st)])]"

definition read_settings :: "config \<Rightarrow> form \<Rightarrow> json \<Rightarrow> settings" where
  "read_settings cfg f prov =
     \<lparr> hashnode_api_key = trim (get f ''settings-hashnode-key''),
       hashnode_url = trim (get f ''settings-hashnode-url''),
       publication_id = trim (get f ''settings-publication-id''),
       settings_scheduleHour =
         (case parseInt (get f ''settings-schedule-hour'') of
            None \<Rightarrow> scheduleHour cfg
          | Some n \<Rightarrow> if n = 0 then scheduleHour cfg else n),
       notes_path = trim (get f ''settings-notes-path''),
       rss_feeds = filter (\<lambda>l. l \<noteq> []) (map trim (js_split (CHR 0x0A) (get f ''settings-rss-feeds''))),
       providers = prov \<rparr>"

text \<open>
  What one run of \<open>saveSettings\<close> does: the value it returns, the notifications, the
  requests sent, the runtime configuration afterwards, and whether the full refresh
  was started. \<open>net\<close> is the answer to the POST and \<open>refresh_throws\<close> says whether the
  awaited refresh rejects; either failure lands in the outer \<open>catch\<close>.
\<close>

record save_outcome =
  returned :: bool
  save_toasts :: "(toast_kind \<times> string) list"
  save_requests :: "request list"
  save_config :: config
  refreshed :: bool

definition saveSettings :: "config \<Rightarrow> form \<Rightarrow> api_result fetched \<Rightarrow> bool \<Rightarrow> save_outcome" where
  "saveSettings cfg f net refresh_throws =
     (let provText = trim (get f ''settings-providers-json'');
          parsed = (if provText \<noteq> [] then JSON_parse provText else Some (JObj []))
      in case parsed of
           None \<Rightarrow>
             \<lparr> returned = False, save_toasts = [(Error, ''Invalid providers JSON'')],
               save_requests = [], save_config = cfg, refreshed = False \<rparr>
         | Some prov \<Rightarrow>
             (let st = read_settings cfg f prov;
                  req = \<lparr> req_url = ''/proxy/dashboard/settings'', req_method = ''POST'',
                          req_body = Some (stringify (settings_json st)) \<rparr>
              in case net of
                   Rejected \<Rightarrow>
                     \<lparr> returned = False, save_toasts = [(Error, ''Failed to save settings'')],
                       save_requests = [req], save_config = cfg, refreshed = False \<rparr>
                 | Json data \<Rightarrow>
                     if result_ok data then
                       \<lparr> returned = \<not> refresh_throws,
                         save_toasts = (Success, ''Settings saved'') #
                           (if refresh_throws then [(Error, ''Failed to save settings'')] else []),
                         save_requests = [req],
                         save_config = cfg \<lparr> scheduleHour := settings_scheduleHour st \<rparr>,
                         refreshed = True \<rparr>
                     else
                       \<lparr> returned = False, save_toasts = [(Error, ''Failed to save settings'')],
                         save_requests = [req], save_config = cfg, refreshed = False \<rparr>))"

section \<open>Usage tracking\<close>

text \<open>
  The usage summary is an object: its keys in the order \<open>Object.keys\<close> lists them, each
  once, with the value under the key. The value under \<open>total_requests\<close> is a number;
  under a provider it is an object whose \<open>models\<close> may be missing.
\<close>

record model_info =
  requests_count :: "nat option"
  last :: "nat option"

datatype summary_value =
  Count nat
| Provider "(string \<times> model_info) list option"

type_synonym usage_summary = "(string \<times> summary_value) list"

type_synonym usage_event = "(string \<times> json) list"

record usage_data =
  summary :: "usage_summary option"
  events :: "usage_event list option"

text \<open>\<open>summary[p]?.models\<close>.\<close>

definition models_of :: "usage_summary \<Rightarrow> string \<Rightarrow> (string \<times> model_info) list option" where
  "models_of sm p = (case map_of sm p of Some (Provider ms) \<Rightarrow> ms | _ \<Rightarrow> None)"

definition usage_providers :: "usage_summary \<Rightarrow> bool \<Rightarrow> string list" where
  "usage_providers sm hideInternal =
     (let ps = filter (\<lambda>k. k \<noteq> ''total_requests'') (map fst sm)
      in if hideInternal then filter (\<lambda>p. p \<noteq> ''Gateway'') ps else ps)"

text \<open>
  \<open>renderUsage\<close>: the three numbers of the header and the options of the provider
  filter (after the fixed option \<open>all\<close>).
\<close>

record usage_header =
  usage_total_requests :: nat
  usage_providers_count :: nat
  usage_models_count :: nat
  filter_options :: "string list"

definition renderUsage :: "usage_data \<Rightarrow> bool \<Rightarrow> usage_header" where
  "renderUsage ud hideInternal =
     (let sm = (case summary ud of None \<Rightarrow> [] | Some m \<Rightarrow> m);
          totalReqs = (case map_of sm ''total_requests'' of Some (Count n) \<Rightarrow> n | _ \<Rightarrow> 0);
          ps = usage_providers sm hideInternal;
          totalModels = fold (\<lambda>p t. case models_of sm p of None \<Rightarrow> t | Some ms \<Rightarrow> t + length ms) ps 0
      in \<lparr> usage_total_requests = totalReqs, usage_providers_count = length ps,
           usage_models_count = totalModels, filter_options = ps \<rparr>)"

text \<open>
  \<open>renderUsageChart\<close>: the total of every provider drawn and the largest of them
  (at least 1), which scales the bars. The pixel heights are not part of the model.
\<close>

definition provider_total :: "usage_summary \<Rightarrow> string \<Rightarrow> nat" where
  "provider_total sm p =
     (case models_of sm p of
        None \<Rightarrow> 0
      | Some ms \<Rightarrow> fold (\<lambda>m total. total + or_nat (requests_count (snd m)) 0) ms 0)"

definition providerTotals :: "usage_summary \<Rightarrow> string list \<Rightarrow> (string \<times> nat) list" where
  "providerTotals sm ps = map (\<lambda>p. (p, provider_total sm p)) ps"

definition chart_max :: "usage_summary \<Rightarrow> string list \<Rightarrow> nat" where
  "chart_max sm ps = fold (\<lambda>p mx. if provider_total sm p > mx then provider_total sm p else mx) ps 1"


section \<open>The refresh cycle\<close>

text \<open>
  The three content loaders write nothing but their panel: the loading notice first,
  then the first entries of the list, the empty notice (no body, no list, or an empty
  one), or the failure notice when the request threw.
\<close>

datatype panel = Loading | Items "json list" | EmptyState | FailedToLoad








text \<open>
  Everything a refresh cycle writes: the \<open>state\<close> object, the globals \<open>usageData\<close>,
  \<open>filteredEvents\<close> and \<open>ollamaData\<close> (\<open>None\<close> is \<open>null\<close>), and the three content panels.
\<close>

record app =
  state :: state
  usageData :: "usage_data option"
  filteredEvents :: "usage_event list"
  ollamaData :: "json option"
  blog_posts :: panel
  learning_notes :: panel
  schedule_history :: panel






section \<open>Properties\<close>

subsection \<open>The overview counters\<close>

text \<open>
  C10. The active-session statistic is the number of sessions whose \<open>active\<close> flag is
  truthy when that number is positive; when no session is marked active it is the
  total number of sessions (so a non-empty list never shows zero).
\<close>

theorem stat_sessions_fallback:
  "stat_sessions (updateStats st) =
     (if 0 < length (filter (\<lambda>s. truthy_bool (active s)) (sessions st))
      then length (filter (\<lambda>s. truthy_bool (active s)) (sessions st))
      else length (sessions st))
   \<and> (sessions st = [] \<or> 0 < stat_sessions (updateStats st))"
  by (cases "sessions st") (auto simp: updateStats_def Let_def)

theorem stat_sessions_fallback_witness:
  "stat_sessions (updateStats (initial_state \<lparr> sessions :=
      [\<lparr> key = Some ''agent:main:a'', agentId = None, updatedAt = Some 5, ageMs = Some 7,
         totalTokens = None, active = None \<rparr>,
       \<lparr> key = Some ''agent:main:b'', agentId = None, updatedAt = Some 6, ageMs = Some 8,
         totalTokens = None, active = Some False \<rparr>] \<rparr>)) = 2
   \<and> stat_sessions (updateStats (initial_state \<lparr> sessions :=
      [\<lparr> key = Some ''agent:main:a'', agentId = None, updatedAt = Some 5, ageMs = Some 7,
         totalTokens = None, active = Some True \<rparr>,
       \<lparr> key = Some ''agent:main:b'', agentId = None, updatedAt = Some 6, ageMs = Some 8,
         totalTokens = None, active = Some False \<rparr>] \<rparr>)) = 1"
  using stat_sessions_fallback [of "initial_state \<lparr> sessions :=
      [\<lparr> key = Some ''agent:main:a'', agentId = None, updatedAt = Some 5, ageMs = Some 7,
         totalTokens = None, active = None \<rparr>,
       \<lparr> key = Some ''agent:main:b'', agentId = None, updatedAt = Some 6, ageMs = Some 8,
         totalTokens = None, active = Some False \<rparr>] \<rparr>"]
    stat_sessions_fallback [of "initial_state \<lparr> sessions :=
      [\<lparr> key = Some ''agent:main:a'', agentId = None, updatedAt = Some 5, ageMs = Some 7,
         totalTokens = None, active = Some True \<rparr>,
       \<lparr> key = Some ''agent:main:b'', agentId = None, updatedAt = Some 6, ageMs = Some 8,
         totalTokens = None, active = Some False \<rparr>] \<rparr>"]
  by (simp add: truthy_bool_def)

subsection \<open>The schedule countdown\<close>














subsection \<open>The activity feed\<close>

lemma set_insert_by: "set (insert_by cmp x ys) = insert x (set ys)"
  by (induction ys) auto

lemma length_insert_by: "length (insert_by cmp x ys) = Suc (length ys)"
  by (induction ys) auto

lemma sorted_insert_by:
  "sorted_wrt (\<lambda>a b. timestamp b \<le> timestamp a) ys \<Longrightarrow>
   sorted_wrt (\<lambda>a b. timestamp b \<le> timestamp a) (insert_by newest_first x ys)"
  by (induction ys) (auto simp: set_insert_by newest_first_def)

lemma sorted_js_sort:
  "sorted_wrt (\<lambda>a b. timestamp b \<le> timestamp a) (js_sort newest_first xs)"
  unfolding js_sort_def by (induction xs) (simp_all add: sorted_insert_by)

lemma set_js_sort: "set (js_sort cmp xs) = set xs"
  unfolding js_sort_def by (induction xs) (simp_all add: set_insert_by)

lemma length_js_sort: "length (js_sort cmp xs) = length xs"
  unfolding js_sort_def by (induction xs) (simp_all add: length_insert_by)

lemma distinct_insert_by:
  "distinct (map f (insert_by cmp x ys)) = (f x \<notin> f ` set ys \<and> distinct (map f ys))"
  by (induction ys) (auto simp: set_insert_by)

lemma distinct_js_sort: "distinct (map f (js_sort cmp xs)) = distinct (map f xs)"
  unfolding js_sort_def
proof (induction xs)
  case Nil
  show ?case by simp
next
  case (Cons x xs)
  have "set (foldr (insert_by cmp) xs []) = set xs"
    using set_js_sort[of cmp xs] by (simp add: js_sort_def)
  with Cons show ?case by (simp add: distinct_insert_by)
qed

lemma strict_of_distinct:
  assumes "sorted_wrt (\<lambda>a b. timestamp b \<le> timestamp a) xs"
    and "distinct (map timestamp xs)"
  shows "sorted_wrt (\<lambda>a b. timestamp b < timestamp a) xs"
  using assms
proof (induction xs)
  case Nil
  show ?case by simp
next
  case (Cons a xs)
  have "timestamp b < timestamp a" if "b \<in> set xs" for b
  proof -
    have "timestamp b \<le> timestamp a" using Cons.prems(1) that by simp
    moreover have "timestamp a \<notin> timestamp ` set xs" using Cons.prems(2) by simp
    then have "timestamp b \<noteq> timestamp a" using that by (metis imageI)
    ultimately show ?thesis by simp
  qed
  with Cons show ?case by simp
qed

lemma loadActivity_fetched:
  "activity (loadActivity cfg now (Json (Some \<lparr> resp_sessions = Some ss \<rparr>)) st)
     = take 20 (js_sort newest_first (map (activity_of now) ss))"
  by (simp add: loadActivity_def fetchOpenClaw_def)

lemma timestamp_activity_of: "timestamp (activity_of now s) = or_nat (updatedAt s) now"
  by (simp add: activity_of_def)

text \<open>
  C4 (as amended). For every fetched session list, no entry of the activity list is
  followed by one with a greater timestamp, and the list has at most 20 entries; when
  the sessions' timestamps are pairwise different, no entry is followed by one with an
  equal timestamp either.
\<close>

theorem activity_sorted_capped:
  "sorted_wrt (\<lambda>a b. timestamp b \<le> timestamp a)
     (activity (loadActivity cfg now (Json (Some \<lparr> resp_sessions = Some ss \<rparr>)) st))
   \<and> length (activity (loadActivity cfg now (Json (Some \<lparr> resp_sessions = Some ss \<rparr>)) st)) \<le> 20
   \<and> (distinct (map (\<lambda>s. or_nat (updatedAt s) now) ss) \<longrightarrow>
        sorted_wrt (\<lambda>a b. timestamp b < timestamp a)
          (activity (loadActivity cfg now (Json (Some \<lparr> resp_sessions = Some ss \<rparr>)) st)))"
proof -
  let ?xs = "js_sort newest_first (map (activity_of now) ss)"
  have s: "sorted_wrt (\<lambda>a b. timestamp b \<le> timestamp a) ?xs" by (rule sorted_js_sort)
  have d: "distinct (map timestamp ?xs)" if "distinct (map (\<lambda>s. or_nat (updatedAt s) now) ss)"
    using that by (simp add: distinct_js_sort comp_def timestamp_activity_of)
  have "sorted_wrt (\<lambda>a b. timestamp b < timestamp a) (take 20 ?xs)"
    if "distinct (map (\<lambda>s. or_nat (updatedAt s) now) ss)"
    using strict_of_distinct[OF s d[OF that]] by (rule sorted_wrt_take)
  moreover have "sorted_wrt (\<lambda>a b. timestamp b \<le> timestamp a) (take 20 ?xs)"
    using s by (rule sorted_wrt_take)
  ultimately show ?thesis by (simp add: loadActivity_fetched)
qed

theorem activity_sorted_capped_witness:
  "distinct (map (\<lambda>s. or_nat (updatedAt s) 9)
      [\<lparr> key = Some ''agent:main:a'', agentId = Some ''main'', updatedAt = Some 5,
         ageMs = Some 7, totalTokens = Some 10, active = None \<rparr>,
       \<lparr> key = Some ''agent:main:b'', agentId = None, updatedAt = None,
         ageMs = Some 8, totalTokens = None, active = None \<rparr>])
   \<and> map timestamp (activity (loadActivity CONFIG 9 (Json (Some \<lparr> resp_sessions = Some
         [\<lparr> key = Some ''agent:main:a'', agentId = Some ''main'', updatedAt = Some 5,
            ageMs = Some 7, totalTokens = Some 10, active = None \<rparr>,
          \<lparr> key = Some ''agent:main:b'', agentId = None, updatedAt = None,
            ageMs = Some 8, totalTokens = None, active = None \<rparr>] \<rparr>)) initial_state)) = [9, 5]
   \<and> sorted_wrt (\<lambda>a b. timestamp b < timestamp a)
        (activity (loadActivity CONFIG 9 (Json (Some \<lparr> resp_sessions = Some
         [\<lparr> key = Some ''agent:main:a'', agentId = Some ''main'', updatedAt = Some 5,
            ageMs = Some 7, totalTokens = Some 10, active = None \<rparr>,
          \<lparr> key = Some ''agent:main:b'', agentId = None, updatedAt = None,
            ageMs = Some 8, totalTokens = None, active = None \<rparr>] \<rparr>)) initial_state))"
  using activity_sorted_capped [of CONFIG 9
       "[\<lparr> key = Some ''agent:main:a'', agentId = Some ''main'', updatedAt = Some 5,
            ageMs = Some 7, totalTokens = Some 10, active = None \<rparr>,
          \<lparr> key = Some ''agent:main:b'', agentId = None, updatedAt = None,
            ageMs = Some 8, totalTokens = None, active = None \<rparr>]" initial_state]
  by (simp add: loadActivity_fetched js_sort_def activity_of_def newest_first_def or_nat_def)

text \<open>
  C4 as stated fails: two sessions updated at the same instant give two entries with
  equal timestamps, one after the other.
\<close>

theorem activity_strict_counterexample:
  "\<not> sorted_wrt (\<lambda>a b. timestamp b < timestamp a)
       (activity (loadActivity CONFIG 9 (Json (Some \<lparr> resp_sessions = Some
          [\<lparr> key = Some ''agent:main:a'', agentId = Some ''main'', updatedAt = Some 5,
             ageMs = Some 7, totalTokens = Some 10, active = None \<rparr>,
           \<lparr> key = Some ''agent:main:b'', agentId = None, updatedAt = Some 5,
             ageMs = Some 8, totalTokens = None, active = None \<rparr>] \<rparr>)) initial_state))"
  by (simp add: loadActivity_fetched js_sort_def activity_of_def newest_first_def or_nat_def)

subsection \<open>Agent cards\<close>

lemma recent_iff: "recent s \<longleftrightarrow> or_nat (ageMs s) 0 < 300000"
  by (simp add: recent_def field_simps)

lemma scan_session_active:
  "activeAgentIds (scan_session s acc) =
     (if recent s then insert (session_agent s) (activeAgentIds acc) else activeAgentIds acc)"
  by (simp add: scan_session_def Let_def)

lemma scan_session_last:
  "stamp (agentLastActivity (scan_session s acc) a) =
     (if session_agent s = a
      then max (stamp (agentLastActivity acc a)) (stamp (updatedAt s))
      else stamp (agentLastActivity acc a))"
  by (auto simp: scan_session_def Let_def stamp_def truthy_nat_def js_gt_def
      split: option.splits)

lemma fold_scan_active:
  "activeAgentIds (fold scan_session ss acc) =
     activeAgentIds acc \<union> session_agent ` {s \<in> set ss. recent s}"
  by (induction ss arbitrary: acc) (auto simp: scan_session_active)

lemma fold_scan_last:
  "stamp (agentLastActivity (fold scan_session ss acc) a) =
     fold max (map (\<lambda>s. stamp (updatedAt s)) (filter (\<lambda>s. session_agent s = a) ss))
       (stamp (agentLastActivity acc a))"
  by (induction ss arbitrary: acc) (simp_all add: scan_session_last max.commute)

lemma shown_time: "(if truthy_nat u then u else None) = (if stamp u = 0 then None else Some (stamp u))"
  by (simp add: truthy_nat_def stamp_def split: option.splits)

text \<open>
  What the cards show for every session list: an agent is active when a session whose
  key names it (second segment, else \<open>main\<close>) is under five minutes old, and its time
  is the greatest \<open>updatedAt\<close> among the sessions whose key names it. The \<open>agentId\<close>
  field of a session plays no part.
\<close>

lemma renderAgents_by_key:
  "renderAgents st =
     map (\<lambda>a. \<lparr> card_agent = agent_id a,
                isActive = (\<exists>s \<in> set (sessions st).
                             session_agent s = agent_id a \<and> or_nat (ageMs s) 0 < 300000),
                lastActivity =
                  (let m = Max (set (0 # map (\<lambda>s. stamp (updatedAt s))
                                    (filter (\<lambda>s. session_agent s = agent_id a) (sessions st))))
                   in if m = 0 then None else Some m) \<rparr>) AGENTS"
proof -
  have a: "(x \<in> activeAgentIds (scan_sessions ss)) =
      (\<exists>s \<in> set ss. session_agent s = x \<and> or_nat (ageMs s) 0 < 300000)" for x ss
    by (auto simp: scan_sessions_def fold_scan_active recent_iff)
  have l: "stamp (agentLastActivity (scan_sessions ss) x) =
      Max (set (0 # map (\<lambda>s. stamp (updatedAt s)) (filter (\<lambda>s. session_agent s = x) ss)))" for x ss
  proof -
    have "stamp (agentLastActivity (scan_sessions ss) x) =
        fold max (map (\<lambda>s. stamp (updatedAt s)) (filter (\<lambda>s. session_agent s = x) ss)) 0"
      unfolding scan_sessions_def fold_scan_last by (simp add: stamp_def)
    then show ?thesis by (simp only: Max.set_eq_fold)
  qed
  show ?thesis
    unfolding renderAgents_def Let_def shown_time a l by simp
qed

text \<open>
  C1. The claim reads the agent of a session from its \<open>agentId\<close> field first. The loop
  of \<open>renderAgents\<close> reads the key only: a recent session of \<open>blog-publisher\<close> whose key
  is \<open>blog-publisher:42\<close> marks no registered agent active and leaves every card
  without a last-activity time, while \<open>viewAgentDetails\<close> files the same session under
  \<open>blog-publisher\<close>.
\<close>

theorem renderAgents_ignores_agentId:
  "details_agent \<lparr> key = Some ''blog-publisher:42'', agentId = Some ''blog-publisher'',
       updatedAt = Some 1700000000000, ageMs = Some 1000, totalTokens = None, active = None \<rparr>
     = ''blog-publisher''
   \<and> renderAgents (initial_state \<lparr> sessions :=
       [\<lparr> key = Some ''blog-publisher:42'', agentId = Some ''blog-publisher'',
          updatedAt = Some 1700000000000, ageMs = Some 1000, totalTokens = None, active = None \<rparr>] \<rparr>)
     = [\<lparr> card_agent = ''main'', isActive = False, lastActivity = None \<rparr>,
        \<lparr> card_agent = ''blog-publisher'', isActive = False, lastActivity = None \<rparr>,
        \<lparr> card_agent = ''research-scraper'', isActive = False, lastActivity = None \<rparr>,
        \<lparr> card_agent = ''inbox-checker'', isActive = False, lastActivity = None \<rparr>]"
  by (simp add: details_agent_def renderAgents_def scan_sessions_def scan_session_def
      session_agent_def recent_def js_gt_def js_index_def truthy_str_def truthy_nat_def
      or_str_def or_nat_def AGENTS_def initial_state_def Let_def)

subsection \<open>Action dispatchers\<close>

lemma getAgentName_main: "getAgentName ''main'' = ''Main Agent''"
  by (simp add: getAgentName_def AGENTS_def)

text \<open>
  For every agent and task: after a transport failure, a \<open>null\<close> body, or an answer
  with neither a truthy \<open>ok\<close> nor a truthy \<open>error\<close>, \<open>spawnAgent\<close> shows nothing but the
  "Spawning ..." notice, while \<open>quickSpawn\<close> reports every failure.
\<close>

lemma spawnAgent_no_failure_toast:
  assumes "trim task \<noteq> []"
    and "net = Rejected \<or> net = Json None
         \<or> (\<exists>r. net = Json (Some r) \<and> \<not> truthy_bool (res_ok r) \<and> \<not> truthy_str (res_error r))"
  shows "toasts (spawnAgent cfg aid task net) = [(Info, ''Spawning '' @ getAgentName aid @ ''...'')]"
  using assms
  by (auto simp: spawnAgent_def fetchOpenClaw_def result_ok_def result_error_def Let_def)

lemma quickSpawn_failure_toast:
  assumes "net = Rejected \<or> net = Json None
         \<or> (\<exists>r. net = Json (Some r) \<and> truthy_str (res_error r))"
  shows "toasts (quickSpawn cfg aid net) =
           [(Error, ''Failed to spawn: '' @ or_str (result_error (case net of Rejected \<Rightarrow> None | Json d \<Rightarrow> d))
                      ''Unknown error'')]"
  using assms
  by (auto simp: quickSpawn_def fetchOpenClaw_def result_ok_def result_error_def Let_def)

text \<open>
  C2. Of the three failure kinds only an answer with an \<open>error\<close> field makes
  \<open>spawnAgent\<close> show a failure notification. After a transport failure, and after an
  answer with neither a truthy \<open>ok\<close> nor an \<open>error\<close>, the only notification is the
  earlier "Spawning ..." one. \<open>quickSpawn\<close> reports the transport failure.
\<close>

theorem spawnAgent_silent_failures:
  "toasts (spawnAgent CONFIG ''main'' ''check mail'' Rejected)
     = [(Info, ''Spawning Main Agent...'')]
   \<and> toasts (spawnAgent CONFIG ''main'' ''check mail''
        (Json (Some \<lparr> res_ok = Some False, res_error = None \<rparr>)))
     = [(Info, ''Spawning Main Agent...'')]
   \<and> toasts (spawnAgent CONFIG ''main'' ''check mail''
        (Json (Some \<lparr> res_ok = None, res_error = Some ''gateway down'' \<rparr>)))
     = [(Info, ''Spawning Main Agent...''), (Error, ''Failed to spawn: gateway down'')]
   \<and> toasts (quickSpawn CONFIG ''main'' Rejected)
     = [(Error, ''Failed to spawn: Unknown error'')]"
  by (simp add: spawnAgent_def quickSpawn_def fetchOpenClaw_def trim_def is_space_def
      getAgentName_main result_ok_def result_error_def truthy_bool_def truthy_str_def or_str_def)

text \<open>
  C9. \<open>quickSpawn\<close> and \<open>triggerCron\<close> send their POST to paths with an \<open>/api\<close> segment
  that the interface table does not have; \<open>spawnAgent\<close> posts the same body shape to
  the listed path.
\<close>

theorem dispatcher_paths:
  "map req_url (requests (quickSpawn CONFIG aid net)) = [''/proxy/openclaw/api/sessions/spawn'']
   \<and> map req_url (requests (triggerCron CONFIG jid net)) = [''/proxy/openclaw/api/cron/run'']
   \<and> map req_url (requests (spawnAgent CONFIG ''main'' ''check mail'' net))
       = [''/proxy/openclaw/sessions/spawn'']"
  by (simp add: quickSpawn_def triggerCron_def spawnAgent_def fetchOpenClaw_def CONFIG_def
      trim_def is_space_def Let_def split: prod.splits)

subsection \<open>The refresh cycle\<close>













text \<open>The loaders write different fields, so they can settle in any order.\<close>

lemma loadSessions_loadCronJobs_commute:
  "loadSessions cfg a (loadCronJobs cfg b st) = loadCronJobs cfg b (loadSessions cfg a st)"
  by (simp add: loadSessions_def loadCronJobs_def fetchOpenClaw_def
      split: fetched.splits option.splits)

lemma loadSessions_loadActivity_commute:
  "loadSessions cfg a (loadActivity cfg now b st) = loadActivity cfg now b (loadSessions cfg a st)"
  by (simp add: loadSessions_def loadActivity_def fetchOpenClaw_def
      split: fetched.splits option.splits)

lemma loadCronJobs_loadActivity_commute:
  "loadCronJobs cfg a (loadActivity cfg now b st) = loadActivity cfg now b (loadCronJobs cfg a st)"
  by (simp add: loadCronJobs_def loadActivity_def fetchOpenClaw_def
      split: fetched.splits option.splits)

lemma checkGatewayStatus_commute:
  "checkGatewayStatus h (loadSessions cfg a st) = loadSessions cfg a (checkGatewayStatus h st)"
  "checkGatewayStatus h (loadCronJobs cfg b st) = loadCronJobs cfg b (checkGatewayStatus h st)"
  "checkGatewayStatus h (loadActivity cfg now c st) = loadActivity cfg now c (checkGatewayStatus h st)"
  by (simp_all add: checkGatewayStatus_def loadSessions_def loadCronJobs_def loadActivity_def
      fetchOpenClaw_def split: fetched.splits option.splits)

subsection \<open>Usage\<close>

lemma fold_add_sum_list:
  "fold (\<lambda>m total. total + f m) ms (a::nat) = a + sum_list (map f ms)"
  by (induction ms arbitrary: a) simp_all

lemma provider_total_sum:
  "provider_total sm p =
     (case models_of sm p of
        None \<Rightarrow> 0
      | Some ms \<Rightarrow> sum_list (map (\<lambda>m. or_nat (requests_count (snd m)) 0) ms))"
  by (simp add: provider_total_def fold_add_sum_list split: option.splits)

lemma map_of_providerTotals:
  "map_of (providerTotals sm ps) p = (if p \<in> set ps then Some (provider_total sm p) else None)"
  unfolding providerTotals_def by (induction ps) auto

text \<open>
  C5. The provider list is the summary's keys without \<open>total_requests\<close>, and without
  \<open>Gateway\<close> when the hide-internal toggle is on; the provider count shown is its
  length; the total of every listed provider is the sum of the \<open>requests\<close> of its
  models (a missing one counting zero). For the summary of the example the totals are
  Gateway 5 and OpenAI 10, and the count with the toggle on is 1.
\<close>

theorem usage_totals_and_providers:
  "usage_providers sm False = removeAll ''total_requests'' (map fst sm)
   \<and> usage_providers sm True = removeAll ''Gateway'' (removeAll ''total_requests'' (map fst sm))
   \<and> set (usage_providers sm hide) =
        fst ` set sm - {''total_requests''} - (if hide then {''Gateway''} else {})
   \<and> usage_providers_count (renderUsage \<lparr> summary = Some sm, events = evs \<rparr> hide)
        = length (usage_providers sm hide)
   \<and> (\<forall>p. map_of (providerTotals sm (usage_providers sm hide)) p =
          (if p \<in> set (usage_providers sm hide)
           then Some (case models_of sm p of
                        None \<Rightarrow> 0
                      | Some ms \<Rightarrow> sum_list (map (\<lambda>m. or_nat (requests_count (snd m)) 0) ms))
           else None))
   \<and> providerTotals
        [(''Gateway'', Provider (Some [(''a'', \<lparr> requests_count = Some 5, last = None \<rparr>)])),
         (''OpenAI'', Provider (Some [(''b'', \<lparr> requests_count = Some 10, last = None \<rparr>)])),
         (''total_requests'', Count 15)]
        (usage_providers
          [(''Gateway'', Provider (Some [(''a'', \<lparr> requests_count = Some 5, last = None \<rparr>)])),
           (''OpenAI'', Provider (Some [(''b'', \<lparr> requests_count = Some 10, last = None \<rparr>)])),
           (''total_requests'', Count 15)] False)
        = [(''Gateway'', 5), (''OpenAI'', 10)]
   \<and> usage_providers_count (renderUsage \<lparr> summary = Some
          [(''Gateway'', Provider (Some [(''a'', \<lparr> requests_count = Some 5, last = None \<rparr>)])),
           (''OpenAI'', Provider (Some [(''b'', \<lparr> requests_count = Some 10, last = None \<rparr>)])),
           (''total_requests'', Count 15)], events = None \<rparr> True) = 1"
proof -
  have 1: "usage_providers sm False = removeAll ''total_requests'' (map fst sm)"
    by (simp add: usage_providers_def removeAll_filter_not_eq eq_commute)
  have 2: "usage_providers sm True = removeAll ''Gateway'' (removeAll ''total_requests'' (map fst sm))"
    by (simp add: usage_providers_def removeAll_filter_not_eq eq_commute)
  have 3: "set (usage_providers sm hide) =
        fst ` set sm - {''total_requests''} - (if hide then {''Gateway''} else {})"
    by (auto simp: usage_providers_def)
  have 4: "usage_providers_count (renderUsage \<lparr> summary = Some sm, events = evs \<rparr> hide)
        = length (usage_providers sm hide)"
    by (simp add: renderUsage_def Let_def)
  have 5: "\<forall>p. map_of (providerTotals sm (usage_providers sm hide)) p =
          (if p \<in> set (usage_providers sm hide)
           then Some (case models_of sm p of
                        None \<Rightarrow> 0
                      | Some ms \<Rightarrow> sum_list (map (\<lambda>m. or_nat (requests_count (snd m)) 0) ms))
           else None)"
    by (simp add: map_of_providerTotals provider_total_sum)
  have 6: "providerTotals
        [(''Gateway'', Provider (Some [(''a'', \<lparr> requests_count = Some 5, last = None \<rparr>)])),
         (''OpenAI'', Provider (Some [(''b'', \<lparr> requests_count = Some 10, last = None \<rparr>)])),
         (''total_requests'', Count 15)]
        (usage_providers
          [(''Gateway'', Provider (Some [(''a'', \<lparr> requests_count = Some 5, last = None \<rparr>)])),
           (''OpenAI'', Provider (Some [(''b'', \<lparr> requests_count = Some 10, last = None \<rparr>)])),
           (''total_requests'', Count 15)] False)
        = [(''Gateway'', 5), (''OpenAI'', 10)]"
    by (simp add: providerTotals_def usage_providers_def provider_total_def models_of_def or_nat_def)
  have 7: "usage_providers_count (renderUsage \<lparr> summary = Some
          [(''Gateway'', Provider (Some [(''a'', \<lparr> requests_count = Some 5, last = None \<rparr>)])),
           (''OpenAI'', Provider (Some [(''b'', \<lparr> requests_count = Some 10, last = None \<rparr>)])),
           (''total_requests'', Count 15)], events = None \<rparr> True) = 1"
    by (simp add: renderUsage_def usage_providers_def Let_def)
  from 1 2 3 4 5 6 7 show ?thesis by blast
qed





subsection \<open>Saving the settings\<close>

text \<open>
  C8 (as amended). When the text of the provider-config box, with the white space
  around it trimmed, is non-empty and is not parseable JSON, \<open>saveSettings\<close> returns
  false with the notification "Invalid providers JSON", sends no request and leaves
  the runtime configuration as it was.
\<close>

theorem saveSettings_invalid_json_aborts:
  assumes "trim (get f ''settings-providers-json'') \<noteq> []"
    and "JSON_parse (trim (get f ''settings-providers-json'')) = None"
  shows "saveSettings cfg f net refresh_throws =
           \<lparr> returned = False, save_toasts = [(Error, ''Invalid providers JSON'')],
             save_requests = [], save_config = cfg, refreshed = False \<rparr>"
  using assms by (simp add: saveSettings_def Let_def)

theorem saveSettings_invalid_json_aborts_witness:
  "trim (get (Map.empty(''settings-providers-json'' \<mapsto> ''{bad'')) ''settings-providers-json'') \<noteq> []
   \<and> JSON_parse (trim (get (Map.empty(''settings-providers-json'' \<mapsto> ''{bad''))
         ''settings-providers-json'')) = None
   \<and> saveSettings CONFIG (Map.empty(''settings-providers-json'' \<mapsto> ''{bad''))
        (Json (Some \<lparr> res_ok = Some True, res_error = None \<rparr>)) False =
           \<lparr> returned = False, save_toasts = [(Error, ''Invalid providers JSON'')],
             save_requests = [], save_config = CONFIG, refreshed = False \<rparr>"
proof -
  have t: "trim (get (Map.empty(''settings-providers-json'' \<mapsto> ''{bad'')) ''settings-providers-json'') = ''{bad''"
    by (simp add: get_def or_str_def trim_def is_space_def)
  have p: "JSON_parse ''{bad'' = None" by code_simp
  have h1: "trim (get (Map.empty(''settings-providers-json'' \<mapsto> ''{bad'')) ''settings-providers-json'') \<noteq> []"
    by (simp add: t)
  have h2: "JSON_parse (trim (get (Map.empty(''settings-providers-json'' \<mapsto> ''{bad''))
         ''settings-providers-json'')) = None"
    by (simp add: t p)
  from saveSettings_invalid_json_aborts[OF h1 h2] h1 h2 show ?thesis by blast
qed

text \<open>
  C8 as stated fails: a box that holds three spaces holds a non-empty string that is
  not parseable JSON, yet it is trimmed to the empty string, taken as the empty
  configuration, and the save goes on to POST the settings.
\<close>

theorem saveSettings_blank_counterexample:
  "get (Map.empty(''settings-providers-json'' \<mapsto> ''   '')) ''settings-providers-json'' = ''   ''
   \<and> ''   '' \<noteq> []
   \<and> JSON_parse ''   '' = None
   \<and> returned (saveSettings CONFIG (Map.empty(''settings-providers-json'' \<mapsto> ''   ''))
        (Json (Some \<lparr> res_ok = Some True, res_error = None \<rparr>)) False)
   \<and> map req_url (save_requests (saveSettings CONFIG (Map.empty(''settings-providers-json'' \<mapsto> ''   ''))
        (Json (Some \<lparr> res_ok = Some True, res_error = None \<rparr>)) False))
       = [''/proxy/dashboard/settings'']"
proof -
  have g: "get (Map.empty(''settings-providers-json'' \<mapsto> ''   '')) ''settings-providers-json'' = ''   ''"
    by (simp add: get_def or_str_def)
  have t: "trim ''   '' = []" by (simp add: trim_def is_space_def)
  have p: "JSON_parse ''   '' = None" by code_simp
  show ?thesis
    by (simp add: g p) (simp add: saveSettings_def Let_def g t result_ok_def truthy_bool_def)
qed

end
